theory Spec2Isabelle
  imports Main
begin

section \<open>Python errors and integer arithmetic\<close>

text \<open>
  Every exception the module can raise is a value. \<open>InvalidArgumentError\<close> is the
  error of the tensor library for a reshape whose target does not fit the tensor.
\<close>

datatype error =
    TypeError
  | NameError
  | ValueError
  | ZeroDivisionError
  | IndexError
  | InvalidArgumentError

text \<open>
  Python's \<open>%\<close> and \<open>//\<close> on integers round towards minus infinity, as \<open>mod\<close> and
  \<open>div\<close> on \<open>int\<close> do, but raise on a zero divisor where HOL returns a value.
\<close>

definition py_mod :: "int \<Rightarrow> int \<Rightarrow> error + int" where
  "py_mod a b = (if b = 0 then Inl ZeroDivisionError else Inr (a mod b))"

definition py_floordiv :: "int \<Rightarrow> int \<Rightarrow> error + int" where
  "py_floordiv a b = (if b = 0 then Inl ZeroDivisionError else Inr (a div b))"

text \<open>
  The entries of a shape tensor (\<open>tf.shape\<close>) are 32-bit signed integers: a product of
  such an entry with a Python integer is taken modulo \<open>2^32\<close> and read as a signed value.
\<close>

definition int32_wrap :: "int \<Rightarrow> int" where
  "int32_wrap n = (n + 2147483648) mod 4294967296 - 2147483648"

text \<open>Truthiness of an optional integer: \<open>None\<close> and \<open>0\<close> are false.\<close>

definition py_truthy :: "int option \<Rightarrow> bool" where
  "py_truthy v = (case v of None \<Rightarrow> False | Some n \<Rightarrow> n \<noteq> 0)"

section \<open>Tensors\<close>

text \<open>
  A tensor is its run-time shape, its elements in row-major order, and the shape known
  when the graph is built (\<open>get_shape()\<close>), where a dimension may be unknown. The static
  rank is taken to be known.
\<close>

record 'a tensor =
  static_shape :: "nat option list"
  shape :: "nat list"
  elems :: "'a list"

text \<open>\<open>t.get_shape()[i].value\<close>\<close>

definition get_shape_value :: "'a tensor \<Rightarrow> nat \<Rightarrow> error + nat option" where
  "get_shape_value t i =
     (if i < length (static_shape t) then Inr (static_shape t ! i) else Inl IndexError)"

text \<open>
  \<open>tf.shape(t)\<close>: the run-time shape as a vector of 32-bit integers, an error when a
  dimension does not fit; and \<open>v[i]\<close> on such a vector.
\<close>

definition tf_shape :: "'a tensor \<Rightarrow> error + int list" where
  "tf_shape t =
     (if list_ex (\<lambda>d. 2147483648 \<le> int d) (shape t) then Inl InvalidArgumentError
      else Inr (map int (shape t)))"

definition shape_getitem :: "int list \<Rightarrow> nat \<Rightarrow> error + int" where
  "shape_getitem v i = (if i < length v then Inr (v ! i) else Inl ValueError)"

text \<open>
  An entry of the target shape of a reshape is a Python integer, known when the graph is
  built, or a scalar tensor, known only when the graph runs.
\<close>

datatype dim = Const int | Dyn int

fun dim_value :: "dim \<Rightarrow> int" where
  "dim_value (Const n) = n"
| "dim_value (Dyn n) = n"

fun dim_static :: "dim \<Rightarrow> nat option" where
  "dim_static (Const n) = Some (nat n)"
| "dim_static (Dyn n) = None"

text \<open>
  \<open>tf.reshape\<close>: the elements stay as they are, in row-major order, under the new shape,
  which must hold exactly as many elements. A negative entry is an error.
\<close>

definition tf_reshape :: "'a tensor \<Rightarrow> dim list \<Rightarrow> error + 'a tensor" where
  "tf_reshape t dims =
     (let vals = map dim_value dims in
      if list_ex (\<lambda>d. d < 0) vals then Inl InvalidArgumentError
      else if prod_list vals \<noteq> int (length (elems t)) then Inl InvalidArgumentError
      else Inr \<lparr>static_shape = map dim_static dims, shape = map nat vals, elems = elems t\<rparr>)"

text \<open>\<open>tf.expand_dims(t, axis)\<close> for a non-negative axis.\<close>

definition tf_expand_dims :: "'a tensor \<Rightarrow> nat \<Rightarrow> error + 'a tensor" where
  "tf_expand_dims t axis =
     (if length (shape t) < axis \<or> length (static_shape t) < axis then Inl ValueError
      else Inr \<lparr>static_shape = take axis (static_shape t) @ [Some 1] @ drop axis (static_shape t),
               shape = take axis (shape t) @ [1] @ drop axis (shape t),
               elems = elems t\<rparr>)"

text \<open>
  \<open>tf.stack(ts, axis)\<close> for a non-negative axis: the tensors must have one shape; the
  result has a new dimension of size \<open>len(ts)\<close> at \<open>axis\<close>, and for each index of the
  dimensions before \<open>axis\<close> it holds the blocks of all the tensors, one after the other.
\<close>

definition tf_stack :: "'a tensor list \<Rightarrow> nat \<Rightarrow> error + 'a tensor" where
  "tf_stack ts axis =
     (case ts of
        [] \<Rightarrow> Inl ValueError
      | t # _ \<Rightarrow>
          if list_ex (\<lambda>u. shape u \<noteq> shape t) ts then Inl ValueError
          else if length (shape t) < axis \<or> length (static_shape t) < axis then Inl ValueError
          else
            let outer = prod_list (take axis (shape t));
                inner = prod_list (drop axis (shape t))
            in Inr \<lparr>static_shape =
                      take axis (static_shape t) @ [Some (length ts)] @ drop axis (static_shape t),
                    shape = take axis (shape t) @ [length ts] @ drop axis (shape t),
                    elems = concat (map (\<lambda>i. concat (map (\<lambda>u. take inner (drop (i * inner) (elems u))) ts))
                                        [0..<outer])\<rparr>)"

text \<open>\<open>tf.squeeze(t, axis=axis)\<close>: the dimension must be 1 and is removed.\<close>

definition tf_squeeze :: "'a tensor \<Rightarrow> nat \<Rightarrow> error + 'a tensor" where
  "tf_squeeze t axis =
     (if length (shape t) \<le> axis \<or> length (static_shape t) \<le> axis then Inl ValueError
      else if shape t ! axis \<noteq> 1 then Inl ValueError
      else Inr \<lparr>static_shape = take axis (static_shape t) @ drop (Suc axis) (static_shape t),
               shape = take axis (shape t) @ drop (Suc axis) (shape t),
               elems = elems t\<rparr>)"

text \<open>
  Every call of the tensor library adds nodes to the graph under construction, a state of
  type \<open>'g\<close>. What the call named \<open>name\<close> adds is given by the parameter \<open>add_op\<close>; a
  call that raises adds nothing.
\<close>

definition tf_op :: "(string \<Rightarrow> 'g \<Rightarrow> 'g) \<Rightarrow> string \<Rightarrow> error + 'v \<Rightarrow> 'g \<Rightarrow> (error + 'v) \<times> 'g" where
  "tf_op add_op name r g = (case r of Inl e \<Rightarrow> (Inl e, g) | Inr v \<Rightarrow> (Inr v, add_op name g))"

text \<open>Row-major indexing of a rank-2 and of a rank-3 tensor.\<close>

definition at2 :: "'a tensor \<Rightarrow> nat \<Rightarrow> nat \<Rightarrow> 'a" where
  "at2 t b j = elems t ! (b * (shape t ! 1) + j)"

definition at3 :: "'a tensor \<Rightarrow> nat \<Rightarrow> nat \<Rightarrow> nat \<Rightarrow> 'a" where
  "at3 t b j d = elems t ! ((b * (shape t ! 1) + j) * (shape t ! 2) + d)"

section \<open>The parent and the splitter\<close>

text \<open>
  The parent is any \<open>TemporalStateful\<close>: its states, its mask, and the set of model
  parts its \<open>get_dependencies()\<close> returns. Model parts are compared by identity, a value
  of type \<open>'p\<close>.
\<close>

record ('a, 'p) temporal_stateful =
  parent_temporal_states :: "'a tensor"
  parent_temporal_mask :: "'a tensor"
  parent_get_dependencies :: "'p set"

text \<open>The values a Python name of this module can be bound to.\<close>

datatype 'a pyval =
    PyNone
  | PyInt int
  | PyCallable "'a \<Rightarrow> 'a"
  | PyObject string

record ('a, 'p) sequence_splitter =
  self_ref :: 'p
  parent :: "('a, 'p) temporal_stateful"
  factor :: int
  projection_size :: "int option"
  activation :: "'a pyval"
  temporal_states_cached :: "'a tensor option"
  temporal_mask_cached :: "'a tensor option"

section \<open>Construction\<close>

text \<open>
  The names bound in the body of \<open>__init__\<close> (its parameters) and at module level (the
  imports, the class and the helper). No Python builtin is called \<open>activation\<close>.
\<close>

definition opt_int :: "int option \<Rightarrow> 'a pyval" where
  "opt_int v = (case v of None \<Rightarrow> PyNone | Some n \<Rightarrow> PyInt n)"

definition opt_callable :: "('a \<Rightarrow> 'a) option \<Rightarrow> 'a pyval" where
  "opt_callable v = (case v of None \<Rightarrow> PyNone | Some f \<Rightarrow> PyCallable f)"

definition init_locals :: "int \<Rightarrow> int option \<Rightarrow> ('a \<Rightarrow> 'a) option \<Rightarrow> (string \<times> 'a pyval) list" where
  "init_locals factor_arg projection_size_arg projection_activation =
     [(''self'', PyObject ''SequenceSplitter''),
      (''parent'', PyObject ''TemporalStateful''),
      (''factor'', PyInt factor_arg),
      (''projection_size'', opt_int projection_size_arg),
      (''projection_activation'', opt_callable projection_activation)]"

definition module_globals :: "(string \<times> 'a pyval) list" where
  "module_globals =
     [(''Callable'', PyObject ''typing.Callable''),
      (''Set'', PyObject ''typing.Set''),
      (''tf'', PyObject ''tensorflow''),
      (''check_argument_types'', PyObject ''typeguard.check_argument_types''),
      (''tensor'', PyObject ''neuralmonkey.decorators.tensor''),
      (''Dataset'', PyObject ''neuralmonkey.dataset.Dataset''),
      (''ModelPart'', PyObject ''neuralmonkey.model.model_part.ModelPart''),
      (''FeedDict'', PyObject ''neuralmonkey.model.model_part.FeedDict''),
      (''TemporalStateful'', PyObject ''neuralmonkey.model.stateful.TemporalStateful''),
      (''SequenceSplitter'', PyObject ''SequenceSplitter''),
      (''split_by_factor'', PyObject ''split_by_factor'')]"

text \<open>Reading a name: the local scope first, then the module's.\<close>

definition load_name :: "string \<Rightarrow> (string \<times> 'v) list \<Rightarrow> (string \<times> 'v) list \<Rightarrow> error + 'v" where
  "load_name n locals globals =
     (case map_of locals n of
        Some v \<Rightarrow> Inr v
      | None \<Rightarrow> (case map_of globals n of Some v \<Rightarrow> Inr v | None \<Rightarrow> Inl NameError))"

text \<open>
  \<open>SequenceSplitter.__init__\<close>. The graph under construction is a state of type \<open>'g\<close>;
  \<open>ModelPart.__init__\<close>, which is not part of this module, is the parameter
  \<open>mp_init\<close>: given the name of the part it returns or raises, and leaves a new graph.
  \<open>check_argument_types()\<close> accepts every argument of the types below. An exception
  leaves the graph as it was when it was raised; the object under construction is lost.
\<close>

definition SequenceSplitter_init ::
  "(string \<Rightarrow> 'g \<Rightarrow> (error + unit) \<times> 'g) \<Rightarrow> 'p \<Rightarrow> ('a, 'p) temporal_stateful \<Rightarrow> int \<Rightarrow>
   int option \<Rightarrow> ('a \<Rightarrow> 'a) option \<Rightarrow> 'g \<Rightarrow> (error + ('a, 'p) sequence_splitter) \<times> 'g" where
  "SequenceSplitter_init mp_init self parent_arg factor_arg projection_size_arg projection_activation g =
     (case mp_init ''sequence_split'' g of
        (Inl e, g1) \<Rightarrow> (Inl e, g1)
      | (Inr _, g1) \<Rightarrow>
          (case load_name ''activation''
                  (init_locals factor_arg projection_size_arg projection_activation) module_globals of
             Inl e \<Rightarrow> (Inl e, g1)
           | Inr act \<Rightarrow>
               (case get_shape_value (parent_temporal_states parent_arg) 2 of
                  Inl e \<Rightarrow> (Inl e, g1)
                | Inr None \<Rightarrow> (Inl TypeError, g1)
                | Inr (Some state_dim) \<Rightarrow>
                    (case py_mod (int state_dim) factor_arg of
                       Inl e \<Rightarrow> (Inl e, g1)
                     | Inr r \<Rightarrow>
                         if r \<noteq> 0 then (Inl ValueError, g1)
                         else (Inr \<lparr>self_ref = self, parent = parent_arg, factor = factor_arg,
                                    projection_size = projection_size_arg, activation = act,
                                    temporal_states_cached = None,
                                    temporal_mask_cached = None\<rparr>, g1)))))"

text \<open>
  Modelled from the spec: \<open>ModelPart.__init__\<close> is not in this module. The spec says of
  construction that it "registers itself as a named part of the model graph" and that
  "this registration must not duplicate names across components in the same graph". Here
  the graph is the list of the names registered so far; a name that is already registered
  is refused and the graph stays as it is.
\<close>

definition ModelPart_init :: "string \<Rightarrow> string list \<Rightarrow> (error + unit) \<times> string list" where
  "ModelPart_init name g =
     (if name \<in> set g then (Inl ValueError, g) else (Inr (), g @ [name]))"

section \<open>The split\<close>

text \<open>
  \<open>split_by_factor\<close>. The batch size and the length are entries of \<open>tf.shape\<close>, so the
  new length \<open>max_time * factor\<close> is a 32-bit product; the state dimension is read from
  the static shape and divided in Python (\<open>None // factor\<close> is a TypeError).
\<close>

definition split_by_factor ::
  "(string \<Rightarrow> 'g \<Rightarrow> 'g) \<Rightarrow> 'a tensor \<Rightarrow> int \<Rightarrow> 'g \<Rightarrow> (error + 'a tensor) \<times> 'g" where
  "split_by_factor add_op tensor_3d factor_arg g =
     (case tf_op add_op ''tf.shape'' (tf_shape tensor_3d) g of
        (Inl e, g1) \<Rightarrow> (Inl e, g1)
      | (Inr orig_shape, g1) \<Rightarrow>
     (case tf_op add_op ''getitem'' (shape_getitem orig_shape 0) g1 of
        (Inl e, g2) \<Rightarrow> (Inl e, g2)
      | (Inr batch_size, g2) \<Rightarrow>
     (case tf_op add_op ''getitem'' (shape_getitem orig_shape 1) g2 of
        (Inl e, g3) \<Rightarrow> (Inl e, g3)
      | (Inr max_time, g3) \<Rightarrow>
     (case get_shape_value tensor_3d 2 of
        Inl e \<Rightarrow> (Inl e, g3)
      | Inr state_dim \<Rightarrow>
     (case tf_op add_op ''mul'' (Inr (int32_wrap (max_time * factor_arg))) g3 of
        (Inl e, g4) \<Rightarrow> (Inl e, g4)
      | (Inr new_time, g4) \<Rightarrow>
     (case (case state_dim of
              None \<Rightarrow> Inl TypeError
            | Some d \<Rightarrow> py_floordiv (int d) factor_arg) of
        Inl e \<Rightarrow> (Inl e, g4)
      | Inr q \<Rightarrow>
          tf_op add_op ''tf.reshape''
            (tf_reshape tensor_3d [Dyn batch_size, Dyn new_time, Const q]) g4))))))"

text \<open>
  The body of \<open>temporal_states\<close>. \<open>tf.layers.dense\<close> is the parameter \<open>dense\<close>: it
  returns the projected tensor or raises, and adds its variables to the graph. The
  projected tensor is bound to the local \<open>states\<close>; the split reads the parent again.
\<close>

definition temporal_states ::
  "(string \<Rightarrow> 'g \<Rightarrow> 'g) \<Rightarrow> ('a tensor \<Rightarrow> int \<Rightarrow> 'a pyval \<Rightarrow> 'g \<Rightarrow> (error + 'a tensor) \<times> 'g) \<Rightarrow>
   ('a, 'p) sequence_splitter \<Rightarrow> 'g \<Rightarrow> (error + 'a tensor) \<times> 'g" where
  "temporal_states add_op dense s g =
     (case (if py_truthy (projection_size s)
            then dense (parent_temporal_states (parent s)) (the (projection_size s)) (activation s) g
            else (Inr (parent_temporal_states (parent s)), g)) of
        (Inl e, g1) \<Rightarrow> (Inl e, g1)
      | (Inr states, g1) \<Rightarrow>
          split_by_factor add_op (parent_temporal_states (parent s)) (factor s) g1)"

text \<open>
  The body of \<open>temporal_mask\<close>. \<open>factor * [x]\<close> is the list of \<open>factor\<close> copies of \<open>x\<close>,
  empty for a factor below 1.
\<close>

definition temporal_mask ::
  "(string \<Rightarrow> 'g \<Rightarrow> 'g) \<Rightarrow> ('a, 'p) sequence_splitter \<Rightarrow> 'g \<Rightarrow> (error + 'a tensor) \<times> 'g" where
  "temporal_mask add_op s g =
     (case tf_op add_op ''tf.expand_dims'' (tf_expand_dims (parent_temporal_mask (parent s)) 2) g of
        (Inl e, g1) \<Rightarrow> (Inl e, g1)
      | (Inr expanded, g1) \<Rightarrow>
     (case tf_op add_op ''tf.stack'' (tf_stack (replicate (nat (factor s)) expanded) 2) g1 of
        (Inl e, g2) \<Rightarrow> (Inl e, g2)
      | (Inr double_mask, g2) \<Rightarrow>
     (case split_by_factor add_op double_mask (factor s) g2 of
        (Inl e, g3) \<Rightarrow> (Inl e, g3)
      | (Inr flat, g3) \<Rightarrow> tf_op add_op ''tf.squeeze'' (tf_squeeze flat 2) g3)))"

definition feed_dict :: "('a, 'p) sequence_splitter \<Rightarrow> 'd \<Rightarrow> bool \<Rightarrow> ('k \<rightharpoonup> 'v)" where
  "feed_dict s dataset train = Map.empty"

definition get_dependencies :: "('a, 'p) sequence_splitter \<Rightarrow> 'p set" where
  "get_dependencies s =
     (let to_return = {self_ref s};
          to_return = to_return \<union> parent_get_dependencies (parent s)
      in to_return)"

section \<open>The cached properties\<close>

text \<open>
  Modelled from the spec: the decorator \<open>tensor\<close> of \<open>neuralmonkey.decorators\<close> is not
  in this module. The spec: "compute on first access, store, return stored value on
  subsequent access". An access that raises stores nothing.
\<close>

definition tensor_decorator ::
  "('g \<Rightarrow> (error + 'v) \<times> 'g) \<Rightarrow> 'v option \<Rightarrow> 'g \<Rightarrow> (error + 'v) \<times> 'v option \<times> 'g" where
  "tensor_decorator body cached g =
     (case cached of
        Some v \<Rightarrow> (Inr v, Some v, g)
      | None \<Rightarrow>
          (case body g of
             (Inl e, g1) \<Rightarrow> (Inl e, None, g1)
           | (Inr v, g1) \<Rightarrow> (Inr v, Some v, g1)))"

text \<open>Reading \<open>s.temporal_states\<close> and \<open>s.temporal_mask\<close>: the value, the object, the graph.\<close>

definition get_temporal_states ::
  "(string \<Rightarrow> 'g \<Rightarrow> 'g) \<Rightarrow> ('a tensor \<Rightarrow> int \<Rightarrow> 'a pyval \<Rightarrow> 'g \<Rightarrow> (error + 'a tensor) \<times> 'g) \<Rightarrow>
   ('a, 'p) sequence_splitter \<Rightarrow> 'g \<Rightarrow> (error + 'a tensor) \<times> ('a, 'p) sequence_splitter \<times> 'g" where
  "get_temporal_states add_op dense s g =
     (case tensor_decorator (temporal_states add_op dense s) (temporal_states_cached s) g of
        (r, c, g1) \<Rightarrow> (r, s\<lparr>temporal_states_cached := c\<rparr>, g1))"

definition get_temporal_mask ::
  "(string \<Rightarrow> 'g \<Rightarrow> 'g) \<Rightarrow> ('a, 'p) sequence_splitter \<Rightarrow> 'g \<Rightarrow>
   (error + 'a tensor) \<times> ('a, 'p) sequence_splitter \<times> 'g" where
  "get_temporal_mask add_op s g =
     (case tensor_decorator (temporal_mask add_op s) (temporal_mask_cached s) g of
        (r, c, g1) \<Rightarrow> (r, s\<lparr>temporal_mask_cached := c\<rparr>, g1))"

section \<open>Well-formed tensors and the examples\<close>

text \<open>
  A tensor is well formed when it has as many elements as its shape says and its static
  shape has the same rank and agrees with the run-time shape where it is known.
\<close>

definition wf_tensor :: "'a tensor \<Rightarrow> bool" where
  "wf_tensor t \<longleftrightarrow>
     length (elems t) = prod_list (shape t) \<and>
     list_all2 (\<lambda>s d. s = None \<or> s = Some d) (static_shape t) (shape t)"

text \<open>
  The parent of the examples: batch 2, length 3 and \<open>F\<close> features, the elements
  numbered from 0, with the mask \<open>[[1, 1, 0], [1, 0, 0]]\<close>.
\<close>

definition example_parent :: "nat \<Rightarrow> (nat, nat) temporal_stateful" where
  "example_parent F =
     \<lparr>parent_temporal_states =
        \<lparr>static_shape = [None, None, Some F], shape = [2, 3, F], elems = [0..<6 * F]\<rparr>,
      parent_temporal_mask =
        \<lparr>static_shape = [None, None], shape = [2, 3], elems = [1, 1, 0, 1, 0, 0]\<rparr>,
      parent_get_dependencies = {1}\<rparr>"

definition example_splitter :: "int option \<Rightarrow> (nat, nat) sequence_splitter" where
  "example_splitter ps =
     \<lparr>self_ref = 0, parent = example_parent 4, factor = 2, projection_size = ps,
      activation = PyNone, temporal_states_cached = None, temporal_mask_cached = None\<rparr>"

text \<open>
  In the examples the graph is the list of the names of what was added to it, and a call
  of the tensor library adds its own name.
\<close>

definition example_add_op :: "string \<Rightarrow> string list \<Rightarrow> string list" where
  "example_add_op name g = g @ [name]"

text \<open>What one run of \<open>split_by_factor\<close> and of the body of \<open>temporal_mask\<close> adds.\<close>

definition split_ops :: "string list" where
  "split_ops = [''tf.shape'', ''getitem'', ''getitem'', ''mul'', ''tf.reshape'']"

definition mask_ops :: "string list" where
  "mask_ops = [''tf.expand_dims'', ''tf.stack''] @ split_ops @ [''tf.squeeze'']"

text \<open>A stand-in for \<open>tf.layers.dense\<close> in the examples: it names a variable and zeroes the states.\<close>

definition example_dense ::
  "nat tensor \<Rightarrow> int \<Rightarrow> nat pyval \<Rightarrow> string list \<Rightarrow> (error + nat tensor) \<times> string list" where
  "example_dense t n act g =
     (if n < 0 then (Inl ValueError, g)
      else (Inr \<lparr>static_shape = [None, None, Some (nat n)],
                 shape = [shape t ! 0, shape t ! 1, nat n],
                 elems = replicate (shape t ! 0 * shape t ! 1 * nat n) 0\<rparr>,
            g @ [''dense/kernel'']))"

text \<open>The split states and the split mask of the example, of shapes \<open>[2, 6, 2]\<close> and \<open>[2, 6]\<close>.\<close>

definition example_split_states :: "nat tensor" where
  "example_split_states =
     \<lparr>static_shape = [None, None, Some 2], shape = [2, 6, 2], elems = [0..<24]\<rparr>"

definition example_split_mask :: "nat tensor" where
  "example_split_mask =
     \<lparr>static_shape = [None, None], shape = [2, 6],
      elems = [1, 1, 1, 1, 0, 0, 1, 1, 0, 0, 0, 0]\<rparr>"

text \<open>
  A parent whose length times the factor 32768 is \<open>2^31\<close>: batch \<open>B\<close>, length 65536 and
  32768 features, all zero, with a mask of ones.
\<close>

definition overflow_parent :: "nat \<Rightarrow> (nat, nat) temporal_stateful" where
  "overflow_parent B =
     \<lparr>parent_temporal_states =
        \<lparr>static_shape = [None, None, Some 32768], shape = [B, 65536, 32768],
         elems = replicate (B * 65536 * 32768) 0\<rparr>,
      parent_temporal_mask =
        \<lparr>static_shape = [None, None], shape = [B, 65536], elems = replicate (B * 65536) 1\<rparr>,
      parent_get_dependencies = {1}\<rparr>"

definition overflow_splitter :: "nat \<Rightarrow> (nat, nat) sequence_splitter" where
  "overflow_splitter B =
     \<lparr>self_ref = 0, parent = overflow_parent B, factor = 32768, projection_size = None,
      activation = PyNone, temporal_states_cached = None, temporal_mask_cached = None\<rparr>"

section \<open>Lists of equal blocks\<close>

lemma concat_replicate_single: "concat (replicate n [x]) = replicate n x"
  by (induction n) simp_all

lemma take_one_drop:
  assumes "i < length xs"
  shows "take 1 (drop i xs) = [xs ! i]"
proof -
  have "take 1 (xs ! i # drop (Suc i) xs) = [xs ! i]"
    by simp
  then show ?thesis
    by (simp only: Cons_nth_drop_Suc [OF assms])
qed

lemma block_of_copies:
  assumes "i < length xs"
  shows "concat (map (\<lambda>u. take 1 (drop (i * 1) (elems u))) (replicate n \<lparr>static_shape = ss, shape = sh, elems = xs\<rparr>))
           = replicate n (xs ! i)"
  using take_one_drop [OF assms] by (simp add: concat_replicate_single)

lemma length_concat_blocks:
  "length (concat (map (\<lambda>i. replicate n (h i)) [0..<m])) = m * n"
  by (induction m) simp_all

lemma block_index_bound:
  assumes "i < m" "k < (n::nat)"
  shows "i * n + k < m * n"
proof -
  have "i * n + k < Suc i * n"
    using assms(2) by simp
  also have "\<dots> \<le> m * n"
    using assms(1) by (intro mult_le_mono1) simp
  finally show ?thesis .
qed

lemma nth_concat_blocks:
  "i < m \<Longrightarrow> k < n \<Longrightarrow> concat (map (\<lambda>i. replicate n (h i)) [0..<m]) ! (i * n + k) = h i"
proof (induction m)
  case 0
  then show ?case by simp
next
  case (Suc m)
  show ?case
  proof (cases "i < m")
    case True
    then have "i * n + k < m * n"
      using Suc.prems(2) by (rule block_index_bound)
    then show ?thesis
      using Suc True by (simp add: nth_append length_concat_blocks)
  next
    case False
    then have "i = m" using Suc.prems(1) by simp
    then show ?thesis
      using Suc.prems(2) by (simp add: nth_append length_concat_blocks)
  qed
qed

section \<open>What the tensor operations return\<close>

lemma wf_tensor_rank: "wf_tensor t \<Longrightarrow> length (static_shape t) = length (shape t)"
  by (auto simp: wf_tensor_def dest: list_all2_lengthD)

lemma wf_tensor_count: "wf_tensor t \<Longrightarrow> length (elems t) = prod_list (shape t)"
  by (simp add: wf_tensor_def)

lemma nat_factor_times_quotient:
  assumes "0 < f" "int F mod f = 0"
  shows "nat f * (F div nat f) = F"
proof -
  have "int F mod int (nat f) = 0"
    using assms by simp
  then have "F mod nat f = 0"
    by (simp only: zmod_int [symmetric] of_nat_eq_0_iff)
  then show ?thesis
    by (simp add: mod_0_imp_dvd)
qed


lemma int32_wrap_id: "0 \<le> n \<Longrightarrow> n < 2147483648 \<Longrightarrow> int32_wrap n = n"
  by (simp add: int32_wrap_def)

lemma tf_op_returns: "tf_op add_op name (Inr v) g = (Inr v, add_op name g)"
  by (simp add: tf_op_def)

lemma tf_op_raises: "tf_op add_op name (Inl e) g = (Inl e, g)"
  by (simp add: tf_op_def)

lemma fst_tf_op: "fst (tf_op add_op name r g) = r"
  by (cases r) (simp_all add: tf_op_def)

lemma split_by_factor_reshape:
  assumes sh: "shape t = B # T # rest"
    and fits: "\<not> list_ex (\<lambda>d. 2147483648 \<le> int d) (shape t)"
    and st: "2 < length (static_shape t)" "static_shape t ! 2 = Some D"
    and f: "0 < f" "int D mod f = 0"
    and n: "length (elems t) = B * T * D"
    and bound: "int T * f < 2147483648"
  shows "split_by_factor add_op t f g =
           (Inr \<lparr>static_shape = [None, None, Some (D div nat f)],
                 shape = [B, T * nat f, D div nat f], elems = elems t\<rparr>,
            fold add_op split_ops g)"
proof -
  have q: "f * (int D div f) = int D"
    using f by (simp add: mod_0_imp_dvd)
  have nonneg: "0 \<le> int D div f"
    using f by (simp add: pos_imp_zdiv_nonneg_iff)
  have tf: "0 \<le> int T * f"
    using f by simp
  have w: "int32_wrap (int T * f) = int T * f"
    using tf bound by (rule int32_wrap_id)
  have "int B * (int T * f * (int D div f)) = int B * int T * (f * (int D div f))"
    by (simp only: mult.assoc)
  also have "\<dots> = int (length (elems t))"
    by (simp only: q n of_nat_mult)
  finally have cnt: "prod_list [int B, int T * f, int D div f] = int (length (elems t))"
    by simp
  have neg: "\<not> list_ex (\<lambda>d. d < 0) [int B, int T * f, int D div f]"
    using nonneg tf by (simp add: not_less)
  have n1: "nat (int T * f) = T * nat f"
    using f by (simp add: nat_mult_distrib)
  have n2: "nat (int D div f) = D div nat f"
    using f by (simp add: nat_div_distrib)
  have r: "tf_reshape t [Dyn (int B), Dyn (int T * f), Const (int D div f)] =
        Inr \<lparr>static_shape = [None, None, Some (D div nat f)],
                shape = [B, T * nat f, D div nat f], elems = elems t\<rparr>"
    unfolding tf_reshape_def Let_def
    by (simp only: list.map dim_value.simps dim_static.simps neg cnt n1 n2 if_False nat_int simp_thms)
  have s: "tf_shape t = Inr (int B # int T # map int rest)"
    using fits sh by (simp add: tf_shape_def)
  have d: "get_shape_value t 2 = Inr (Some D)"
    using st by (simp add: get_shape_value_def)
  have p: "py_floordiv (int D) f = Inr (int D div f)"
    using f by (simp add: py_floordiv_def)
  show ?thesis
    unfolding split_by_factor_def
    by (simp add: s d p w r tf_op_returns shape_getitem_def split_ops_def)
qed

lemma split_by_factor_value:
  "fst (split_by_factor add_op t f g) = fst (split_by_factor add_op2 t f g2)"
  unfolding split_by_factor_def
  by (simp add: tf_op_def split: sum.split option.split)

lemma split_states_result:
  assumes wf: "wf_tensor t" and sh: "shape t = [B, T, F]" and st: "static_shape t ! 2 = Some F"
    and f: "0 < f" and m: "int F mod f = 0"
    and b: "int B < 2147483648" "int F < 2147483648" "int T * f < 2147483648"
  shows "split_by_factor add_op t f g =
           (Inr \<lparr>static_shape = [None, None, Some (F div nat f)],
                 shape = [B, T * nat f, F div nat f], elems = elems t\<rparr>,
            fold add_op split_ops g)"
proof -
  have "int T * 1 \<le> int T * f"
    using f by (intro mult_left_mono) simp_all
  then have t: "int T < 2147483648"
    using b(3) by simp
  have fits: "\<not> list_ex (\<lambda>d. 2147483648 \<le> int d) (shape t)"
    using b(1,2) t by (simp add: sh not_le)
  have "length (static_shape t) = 3"
    using wf sh by (simp add: wf_tensor_rank)
  moreover have "length (elems t) = B * T * F"
    using wf sh by (simp add: wf_tensor_count)
  ultimately show ?thesis
    using sh st f m fits b(3) by (intro split_by_factor_reshape [where rest = "[F]"]) simp_all
qed

lemma stack_of_copies:
  assumes sh: "shape e = [B, T, 1]" and st: "static_shape e = [s0, s1, Some 1]"
    and n: "length (elems e) = B * T" and k: "0 < k"
  shows "tf_stack (replicate k e) 2 =
           Inr \<lparr>static_shape = [s0, s1, Some k, Some 1], shape = [B, T, k, 1],
                elems = concat (map (\<lambda>i. replicate k (elems e ! i)) [0..<B * T])\<rparr>"
proof -
  obtain j where j: "k = Suc j"
    using k by (cases k) auto
  have same: "\<not> list_ex (\<lambda>u. shape u \<noteq> shape e) (replicate k e)"
    by (simp add: list_ex_iff)
  have blk: "concat (map (\<lambda>u. take 1 (drop (i * 1) (elems u))) (replicate k e)) = replicate k (elems e ! i)"
    if "i < B * T" for i
    using block_of_copies [of i "elems e" k "static_shape e" "shape e"] that n by simp
  have el: "concat (map (\<lambda>i. concat (map (\<lambda>u. take 1 (drop (i * 1) (elems u))) (replicate k e))) [0..<B * T])
            = concat (map (\<lambda>i. replicate k (elems e ! i)) [0..<B * T])"
    by (rule arg_cong [where f = concat], rule map_cong [OF refl], rule blk) simp
  have "tf_stack (replicate k e) 2 = tf_stack (e # replicate j e) 2"
    by (simp add: j)
  also have "\<dots> = Inr \<lparr>static_shape = [s0, s1, Some k, Some 1], shape = [B, T, k, 1],
                elems = concat (map (\<lambda>i. concat (map (\<lambda>u. take 1 (drop (i * 1) (elems u))) (replicate k e))) [0..<B * T])\<rparr>"
    using same sh st unfolding tf_stack_def Let_def by (simp add: j)
  finally show ?thesis
    by (simp only: el)
qed

lemma temporal_mask_result:
  assumes sh: "shape (parent_temporal_mask (parent s)) = [B, T]"
    and st: "length (static_shape (parent_temporal_mask (parent s))) = 2"
    and n: "length (elems (parent_temporal_mask (parent s))) = B * T"
    and f: "0 < factor s"
    and b: "int B < 2147483648" "factor s < 2147483648" "int T * factor s < 2147483648"
  shows "temporal_mask add_op s g =
           (Inr \<lparr>static_shape = [None, None], shape = [B, T * nat (factor s)],
                 elems = concat (map (\<lambda>i. replicate (nat (factor s)) (elems (parent_temporal_mask (parent s)) ! i))
                                    [0..<B * T])\<rparr>,
            fold add_op mask_ops g)"
proof -
  define pm where "pm = parent_temporal_mask (parent s)"
  define k where "k = nat (factor s)"
  define xs where "xs = concat (map (\<lambda>i. replicate k (elems pm ! i)) [0..<B * T])"
  have k: "0 < k" using f by (simp add: k_def)
  have ik: "int k = factor s" using f by (simp add: k_def)
  have "int T * 1 \<le> int T * factor s"
    using f by (intro mult_left_mono) simp_all
  then have t: "int T < 2147483648"
    using b(3) by simp
  obtain s0 s1 where ss: "static_shape pm = [s0, s1]"
    using st unfolding pm_def by (cases "static_shape (parent_temporal_mask (parent s))"; simp)
      (metis length_0_conv length_Suc_conv)
  have a: "tf_expand_dims pm 2 =
             Inr \<lparr>static_shape = [s0, s1, Some 1], shape = [B, T, 1], elems = elems pm\<rparr>"
    using sh ss by (simp add: tf_expand_dims_def pm_def)
  have b': "tf_stack (replicate k \<lparr>static_shape = [s0, s1, Some 1], shape = [B, T, 1], elems = elems pm\<rparr>) 2 =
             Inr \<lparr>static_shape = [s0, s1, Some k, Some 1], shape = [B, T, k, 1], elems = xs\<rparr>"
    using stack_of_copies [of "\<lparr>static_shape = [s0, s1, Some 1], shape = [B, T, 1], elems = elems pm\<rparr>" B T s0 s1 k]
      n k by (simp add: pm_def xs_def)
  have lx: "length xs = B * T * k"
    by (simp add: xs_def length_concat_blocks)
  have fits: "\<not> list_ex (\<lambda>d. 2147483648 \<le> int d)
                (shape \<lparr>static_shape = [s0, s1, Some k, Some 1], shape = [B, T, k, 1], elems = xs\<rparr>)"
    using b(1,2) t ik by (simp add: not_le)
  have c: "split_by_factor add_op \<lparr>static_shape = [s0, s1, Some k, Some 1], shape = [B, T, k, 1], elems = xs\<rparr>
             (factor s) g' =
             (Inr \<lparr>static_shape = [None, None, Some (k div nat (factor s))],
                  shape = [B, T * nat (factor s), k div nat (factor s)], elems = xs\<rparr>,
              fold add_op split_ops g')" for g'
    using split_by_factor_reshape [where t = "\<lparr>static_shape = [s0, s1, Some k, Some 1], shape = [B, T, k, 1], elems = xs\<rparr>"
        and B = B and T = T and rest = "[k, 1]" and D = k and f = "factor s" and add_op = add_op and g = g']
      f lx b(3) ik fits
    by simp
  have kk: "k div nat (factor s) = 1"
    using k by (simp add: k_def)
  have d: "tf_squeeze \<lparr>static_shape = [None, None, Some 1], shape = [B, T * k, 1], elems = xs\<rparr> 2 =
             Inr \<lparr>static_shape = [None, None], shape = [B, T * k], elems = xs\<rparr>"
    by (simp add: tf_squeeze_def)
  show ?thesis
    unfolding temporal_mask_def
    using a b' c d kk
    by (simp add: pm_def [symmetric] k_def [symmetric] xs_def [symmetric] tf_op_returns mask_ops_def)
qed

lemma temporal_mask_value:
  "fst (temporal_mask add_op s g) = fst (temporal_mask add_op2 s g2)"
proof (cases "tf_expand_dims (parent_temporal_mask (parent s)) 2")
  case (Inl e)
  then show ?thesis
    by (simp add: temporal_mask_def tf_op_raises)
next
  case e: (Inr expanded)
  show ?thesis
  proof (cases "tf_stack (replicate (nat (factor s)) expanded) 2")
    case (Inl e')
    with e show ?thesis
      by (simp add: temporal_mask_def tf_op_raises tf_op_returns)
  next
    case d: (Inr double_mask)
    let ?g = "add_op ''tf.stack'' (add_op ''tf.expand_dims'' g)"
    let ?g2 = "add_op2 ''tf.stack'' (add_op2 ''tf.expand_dims'' g2)"
    obtain r h where a: "split_by_factor add_op double_mask (factor s) ?g = (r, h)"
      by (cases "split_by_factor add_op double_mask (factor s) ?g")
    obtain r2 h2 where b: "split_by_factor add_op2 double_mask (factor s) ?g2 = (r2, h2)"
      by (cases "split_by_factor add_op2 double_mask (factor s) ?g2")
    have "r = r2"
      using split_by_factor_value [of add_op double_mask "factor s" ?g add_op2 ?g2] a b by simp
    with e d a b show ?thesis
      by (simp add: temporal_mask_def tf_op_returns fst_tf_op split: sum.split)
  qed
qed

lemma temporal_states_returns:
  assumes "fst (temporal_states add_op dense s g) = Inr v"
  shows "fst (split_by_factor add_op2 (parent_temporal_states (parent s)) (factor s) g2) = Inr v"
proof (cases "py_truthy (projection_size s)")
  case True
  obtain r g1 where
    d: "dense (parent_temporal_states (parent s)) (the (projection_size s)) (activation s) g = (r, g1)"
    by (cases "dense (parent_temporal_states (parent s)) (the (projection_size s)) (activation s) g")
  with True assms obtain p where "r = Inr p"
    by (cases r) (simp_all add: temporal_states_def)
  with d True assms have "fst (split_by_factor add_op (parent_temporal_states (parent s)) (factor s) g1) = Inr v"
    by (simp add: temporal_states_def)
  then show ?thesis
    by (simp only: split_by_factor_value [of add_op _ _ g1 add_op2 g2])
next
  case False
  with assms have "fst (split_by_factor add_op (parent_temporal_states (parent s)) (factor s) g) = Inr v"
    by (simp add: temporal_states_def)
  then show ?thesis
    by (simp only: split_by_factor_value [of add_op _ _ g add_op2 g2])
qed

lemma temporal_states_unprojected:
  "\<not> py_truthy (projection_size s) \<Longrightarrow>
   temporal_states add_op dense s g =
     split_by_factor add_op (parent_temporal_states (parent s)) (factor s) g"
  by (simp add: temporal_states_def)

lemma tensor_decorator_cached: "tensor_decorator body (Some v) g = (Inr v, Some v, g)"
  by (simp add: tensor_decorator_def)

lemma tensor_decorator_first:
  assumes "tensor_decorator body None g = (Inr v, c, g1)"
  shows "body g = (Inr v, g1) \<and> c = Some v"
proof (cases "body g")
  case (Pair r g')
  then show ?thesis
    using assms by (cases r) (simp_all add: tensor_decorator_def)
qed

section \<open>The examples, evaluated\<close>

lemma example_states_facts:
  "wf_tensor (parent_temporal_states (example_parent F))"
  "shape (parent_temporal_states (example_parent F)) = [2, 3, F]"
  "static_shape (parent_temporal_states (example_parent F)) ! 2 = Some F"
  by (simp_all add: example_parent_def wf_tensor_def)

lemma example_mask_facts:
  "wf_tensor (parent_temporal_mask (example_parent F))"
  "shape (parent_temporal_mask (example_parent F)) = [2, 3]"
  by (simp_all add: example_parent_def wf_tensor_def)

lemma fold_example_add_op: "fold example_add_op names g = g @ names"
  by (induction names arbitrary: g) (simp_all add: example_add_op_def)

lemma example_split:
  "split_by_factor add_op (parent_temporal_states (example_parent 4)) 2 g =
     (Inr example_split_states, fold add_op split_ops g)"
proof -
  have "split_by_factor add_op (parent_temporal_states (example_parent 4)) 2 g =
          (Inr \<lparr>static_shape = [None, None, Some (4 div nat 2)],
                shape = [2, 3 * nat 2, 4 div nat 2],
                elems = elems (parent_temporal_states (example_parent 4))\<rparr>,
           fold add_op split_ops g)"
    by (rule split_states_result) (simp_all add: example_states_facts)
  then show ?thesis
    by (simp add: example_split_states_def example_parent_def)
qed

lemma upt_6: "[0..<6] = [0, 1, 2, 3, 4, 5]"
  by (simp add: upt_rec)

lemma example_mask:
  assumes "parent s = example_parent 4" and "factor s = 2"
  shows "temporal_mask add_op s g = (Inr example_split_mask, fold add_op mask_ops g)"
proof -
  have "temporal_mask add_op s g =
          (Inr \<lparr>static_shape = [None, None], shape = [2, 3 * nat 2],
                elems = concat (map (\<lambda>i. replicate (nat 2) ([1, 1, 0, 1, 0, 0] ! i)) [0..<2 * 3])\<rparr>,
           fold add_op mask_ops g)"
    using temporal_mask_result [of s 2 3 add_op g]
    by (simp add: assms example_parent_def)
  then show ?thesis
    by (simp add: example_split_mask_def upt_6 numeral_2_eq_2)
qed

lemma example_states:
  "temporal_states add_op example_dense (example_splitter (Some 8)) [] =
     (Inr example_split_states, fold add_op split_ops [''dense/kernel''])"
  "temporal_states add_op example_dense (example_splitter None) g =
     (Inr example_split_states, fold add_op split_ops g)"
  using example_split [of add_op]
  by (simp_all add: temporal_states_def example_splitter_def example_dense_def py_truthy_def)

lemma split_by_factor_negative_length:
  assumes sh: "shape t = B # T # rest"
    and fits: "\<not> list_ex (\<lambda>d. 2147483648 \<le> int d) (shape t)"
    and st: "2 < length (static_shape t)" "static_shape t ! 2 = Some D"
    and f: "f \<noteq> 0"
    and neg: "int32_wrap (int T * f) < 0"
  shows "fst (split_by_factor add_op t f g) = Inl InvalidArgumentError"
proof -
  have s: "tf_shape t = Inr (int B # int T # map int rest)"
    using fits sh by (simp add: tf_shape_def)
  have d: "get_shape_value t 2 = Inr (Some D)"
    using st by (simp add: get_shape_value_def)
  have p: "py_floordiv (int D) f = Inr (int D div f)"
    using f by (simp add: py_floordiv_def)
  have r: "tf_reshape t [Dyn (int B), Dyn (int32_wrap (int T * f)), Const (int D div f)] =
             Inl InvalidArgumentError"
    using neg by (simp add: tf_reshape_def)
  show ?thesis
    unfolding split_by_factor_def
    by (simp add: s d p r tf_op_returns tf_op_raises shape_getitem_def)
qed

lemma wrap_of_overflow: "int32_wrap 2147483648 = - 2147483648"
  by (simp add: int32_wrap_def)

section \<open>Construction never completes\<close>

lemma load_activation:
  "load_name ''activation'' (init_locals f ps pa) module_globals = Inl NameError"
  by (simp add: load_name_def init_locals_def module_globals_def)

text \<open>
  C2. Whatever the parent, the factor, the projection size and the projection activation
  are, \<open>__init__\<close> never returns an object. Once \<open>ModelPart.__init__\<close> has returned, the
  error is the NameError of \<open>self.activation = activation\<close>, raised before the feature
  dimension is read: the result is the same for every parent.
\<close>

theorem init_always_NameError:
  "(\<forall>s g'. SequenceSplitter_init mp_init self p f ps pa g \<noteq> (Inr s, g')) \<and>
   (\<forall>u g1. mp_init ''sequence_split'' g = (Inr u, g1) \<longrightarrow>
      SequenceSplitter_init mp_init self p f ps pa g = (Inl NameError, g1))"
  by (auto simp: SequenceSplitter_init_def load_activation split: prod.splits sum.splits)

theorem init_always_NameError_witness:
  "ModelPart_init ''sequence_split'' [] = (Inr (), [''sequence_split'']) \<and>
   SequenceSplitter_init ModelPart_init (0::nat) (example_parent 4) 2 None None []
     = (Inl NameError, [''sequence_split''])"
  using init_always_NameError [of ModelPart_init "0::nat" "example_parent 4" 2 None None "[]"]
  by (simp add: ModelPart_init_def)

text \<open>
  C1. With 5 features and factor 2 construction should fail with the ValueError of the
  divisibility check, and with 4 features and factor 2 it should return the splitter. It
  raises the NameError in both cases.
\<close>

theorem init_divisibility_unreached:
  "fst (SequenceSplitter_init ModelPart_init (0::nat) (example_parent 5) 2 None None [])
     = Inl NameError \<and>
   fst (SequenceSplitter_init ModelPart_init (0::nat) (example_parent 4) 2 None None [])
     = Inl NameError"
  by (simp add: SequenceSplitter_init_def ModelPart_init_def load_activation)

section \<open>Construction is not atomic\<close>

text \<open>
  C6, as stated, fails: construction with 5 features and factor 2 raises, and the name
  registered by \<open>ModelPart.__init__\<close> is still in the graph.
\<close>

theorem init_not_atomic:
  "isl (fst (SequenceSplitter_init ModelPart_init (0::nat) (example_parent 5) 2 None None [])) \<and>
   snd (SequenceSplitter_init ModelPart_init (0::nat) (example_parent 5) 2 None None []) \<noteq> []"
  by (simp add: SequenceSplitter_init_def ModelPart_init_def load_activation)

text \<open>
  C6, amended. Construction undoes nothing of what \<open>ModelPart.__init__\<close> did and adds
  nothing of its own: in every outcome, and so whenever construction fails, the graph is
  the one \<open>ModelPart.__init__\<close> left, whatever \<open>ModelPart.__init__\<close> does.
\<close>

theorem init_leaves_graph_of_ModelPart_init:
  "snd (SequenceSplitter_init mp_init self p f ps pa g) = snd (mp_init ''sequence_split'' g)"
proof (cases "mp_init ''sequence_split'' g")
  case (Pair r g1)
  then show ?thesis
    by (cases r) (simp_all add: SequenceSplitter_init_def load_activation)
qed

section \<open>Shapes\<close>

text \<open>
  C3, as stated, fails: with a well-formed parent of shape \<open>[0, 65536, 32768]\<close> and factor
  32768, which divides the feature dimension, the 32-bit product \<open>65536 * 32768\<close> is
  negative and \<open>temporal_states\<close> raises.
\<close>

theorem split_shapes_overflow:
  "wf_tensor (parent_temporal_states (overflow_parent 0)) \<and>
   shape (parent_temporal_states (overflow_parent 0)) = [0, 65536, 32768] \<and>
   py_mod 32768 (factor (overflow_splitter 0)) = Inr 0 \<and>
   fst (temporal_states example_add_op example_dense (overflow_splitter 0) [])
     = Inl InvalidArgumentError"
proof -
  have "fst (split_by_factor example_add_op (parent_temporal_states (overflow_parent 0)) 32768 [])
          = Inl InvalidArgumentError"
    by (rule split_by_factor_negative_length [where B = 0 and T = 65536 and rest = "[32768]" and D = 32768])
      (simp_all add: overflow_parent_def wrap_of_overflow)
  then show ?thesis
    by (simp add: temporal_states_def overflow_splitter_def py_truthy_def py_mod_def
        overflow_parent_def wf_tensor_def)
qed

text \<open>
  C3, amended. Let the parent's states be well formed with shape \<open>[B, T, F]\<close> and the
  feature dimension statically known, its mask well formed with shape \<open>[B, T]\<close>, the
  factor positive and \<open>F % factor == 0\<close>, and let \<open>B\<close>, \<open>F\<close>, the factor and
  \<open>T * factor\<close> be below \<open>2^31\<close>. Then \<open>temporal_states\<close> returns a tensor of shape
  \<open>[B, T * factor, F // factor]\<close> (when a projection is configured, provided the dense
  layer does not raise) and \<open>temporal_mask\<close> returns one of shape \<open>[B, T * factor]\<close>;
  both are well formed.
\<close>

theorem split_shapes:
  assumes "wf_tensor (parent_temporal_states (parent s))"
    and "shape (parent_temporal_states (parent s)) = [B, T, F]"
    and "static_shape (parent_temporal_states (parent s)) ! 2 = Some F"
    and "wf_tensor (parent_temporal_mask (parent s))"
    and "shape (parent_temporal_mask (parent s)) = [B, T]"
    and "0 < factor s" and "py_mod (int F) (factor s) = Inr 0"
    and "py_truthy (projection_size s) \<longrightarrow>
           \<not> isl (fst (dense (parent_temporal_states (parent s)) (the (projection_size s)) (activation s) g))"
    and "int B < 2147483648" and "int F < 2147483648"
    and "factor s < 2147483648" and "int T * factor s < 2147483648"
  shows "\<exists>st m. fst (temporal_states add_op dense s g) = Inr st \<and>
                shape st = [B, T * nat (factor s), F div nat (factor s)] \<and> wf_tensor st \<and>
                fst (temporal_mask add_op s g2) = Inr m \<and>
                shape m = [B, T * nat (factor s)] \<and> wf_tensor m"
proof -
  define k where "k = nat (factor s)"
  have md: "int F mod factor s = 0"
    using assms(6,7) by (simp add: py_mod_def)
  have kq: "k * (F div k) = F"
    unfolding k_def using assms(6) md by (rule nat_factor_times_quotient)
  let ?st = "\<lparr>static_shape = [None, None, Some (F div k)],
              shape = [B, T * k, F div k], elems = elems (parent_temporal_states (parent s))\<rparr>"
  let ?m = "\<lparr>static_shape = [None, None], shape = [B, T * k],
             elems = concat (map (\<lambda>i. replicate k (elems (parent_temporal_mask (parent s)) ! i))
                                    [0..<B * T])\<rparr>"
  have sp: "split_by_factor add_op (parent_temporal_states (parent s)) (factor s) g1 =
              (Inr ?st, fold add_op split_ops g1)" for g1
    unfolding k_def using assms(1,2,3,6) md assms(9,10,12) by (rule split_states_result)
  have ts: "fst (temporal_states add_op dense s g) = Inr ?st"
  proof (cases "py_truthy (projection_size s)")
    case True
    obtain r g1 where
      d: "dense (parent_temporal_states (parent s)) (the (projection_size s)) (activation s) g = (r, g1)"
      by (cases "dense (parent_temporal_states (parent s)) (the (projection_size s)) (activation s) g")
    with True assms(8) have "\<not> isl r"
      by simp
    then obtain p where "r = Inr p"
      by (cases r) simp_all
    with d True sp show ?thesis
      by (simp add: temporal_states_def)
  next
    case False
    with sp show ?thesis
      by (simp add: temporal_states_def)
  qed
  have "B * (T * k * (F div k)) = B * T * (k * (F div k))"
    by (simp only: mult.assoc)
  then have cnt: "B * (T * k * (F div k)) = B * T * F"
    by (simp only: kq)
  have "length (elems (parent_temporal_states (parent s))) = B * T * F"
    using assms(1,2) by (simp add: wf_tensor_count)
  then have "length (elems ?st) = prod_list (shape ?st)"
    by (simp add: cnt)
  then have wst: "wf_tensor ?st"
    by (simp add: wf_tensor_def)
  have "temporal_mask add_op s g2 = (Inr ?m, fold add_op mask_ops g2)"
    unfolding k_def using assms(4,5,6,9,11,12)
    by (intro temporal_mask_result) (simp_all add: wf_tensor_rank wf_tensor_count)
  then have tm: "fst (temporal_mask add_op s g2) = Inr ?m"
    by simp
  have wm: "wf_tensor ?m"
    by (simp add: wf_tensor_def length_concat_blocks)
  show ?thesis
    using ts wst tm wm by (intro exI [of _ ?st] exI [of _ ?m]) (simp add: k_def)
qed

theorem split_shapes_witness:
  "wf_tensor (parent_temporal_states (example_parent 4)) \<and>
   wf_tensor (parent_temporal_mask (example_parent 4)) \<and>
   py_mod 4 2 = Inr 0 \<and>
   \<not> isl (fst (example_dense (parent_temporal_states (example_parent 4)) 8 PyNone [])) \<and>
   (\<exists>st m. fst (temporal_states example_add_op example_dense (example_splitter (Some 8)) []) = Inr st \<and>
           shape st = [2, 6, 2] \<and> wf_tensor st \<and>
           fst (temporal_mask example_add_op (example_splitter (Some 8)) []) = Inr m \<and>
           shape m = [2, 6] \<and> wf_tensor m)"
proof -
  let ?s = "example_splitter (Some 8)"
  have p: "parent ?s = example_parent 4" and f: "factor ?s = 2"
    and ps: "projection_size ?s = Some 8" and a: "activation ?s = PyNone"
    by (simp_all add: example_splitter_def)
  have h1: "wf_tensor (parent_temporal_states (parent ?s))"
    and h2: "shape (parent_temporal_states (parent ?s)) = [2, 3, 4]"
    and h3: "static_shape (parent_temporal_states (parent ?s)) ! 2 = Some 4"
    and h4: "wf_tensor (parent_temporal_mask (parent ?s))"
    and h5: "shape (parent_temporal_mask (parent ?s)) = [2, 3]"
    by (simp_all only: p example_states_facts example_mask_facts)
  have h6: "0 < factor ?s"
    by (simp add: f)
  have h7: "py_mod (int 4) (factor ?s) = Inr 0"
    by (simp add: f py_mod_def)
  have d: "\<not> isl (fst (example_dense (parent_temporal_states (example_parent 4)) 8 PyNone []))"
    by (simp add: example_dense_def)
  then have h8: "py_truthy (projection_size ?s) \<longrightarrow>
      \<not> isl (fst (example_dense (parent_temporal_states (parent ?s)) (the (projection_size ?s))
                   (activation ?s) []))"
    by (simp add: p ps a)
  have h9: "int 2 < 2147483648" and h10: "int 4 < 2147483648"
    and h11: "factor ?s < 2147483648" and h12: "int 3 * factor ?s < 2147483648"
    by (simp_all add: f)
  have "\<exists>st m. fst (temporal_states example_add_op example_dense ?s []) = Inr st \<and>
           shape st = [2, 3 * nat (factor ?s), 4 div nat (factor ?s)] \<and> wf_tensor st \<and>
           fst (temporal_mask example_add_op ?s []) = Inr m \<and>
           shape m = [2, 3 * nat (factor ?s)] \<and> wf_tensor m"
    by (rule split_shapes [where s = ?s and dense = example_dense and g = "[]"
          and add_op = example_add_op and ?g2.0 = "[]",
          OF h1 h2 h3 h4 h5 h6 h7 h8 h9 h10 h11 h12])
  then have "\<exists>st m. fst (temporal_states example_add_op example_dense ?s []) = Inr st \<and>
           shape st = [2, 6, 2] \<and> wf_tensor st \<and>
           fst (temporal_mask example_add_op ?s []) = Inr m \<and> shape m = [2, 6] \<and> wf_tensor m"
    by (simp add: f)
  moreover have "py_mod 4 2 = Inr 0"
    by (simp add: py_mod_def)
  ultimately show ?thesis
    using d example_states_facts(1) [of 4] example_mask_facts(1) [of 4] by simp
qed

section \<open>The mask\<close>

text \<open>
  C4, as stated, fails: with a well-formed mask of shape \<open>[1, 65536]\<close> and factor 32768
  the 32-bit product \<open>65536 * 32768\<close> is negative, and \<open>temporal_mask\<close> raises: there is
  no output mask.
\<close>

theorem mask_overflow:
  "wf_tensor (parent_temporal_mask (overflow_parent 1)) \<and>
   shape (parent_temporal_mask (overflow_parent 1)) = [1, 65536] \<and>
   0 < factor (overflow_splitter 1) \<and>
   fst (temporal_mask example_add_op (overflow_splitter 1) []) = Inl InvalidArgumentError"
proof -
  define xs :: "nat list" where "xs = replicate (1 * 65536) 1"
  define e where "e = \<lparr>static_shape = [None, None, Some 1], shape = [1, 65536, 1], elems = xs\<rparr>"
  define dm where "dm = \<lparr>static_shape = [None, None, Some 32768, Some 1],
      shape = [1, 65536, 32768, 1],
      elems = concat (map (\<lambda>i. replicate 32768 (elems e ! i)) [0..<1 * 65536])\<rparr>"
  have pm: "parent_temporal_mask (parent (overflow_splitter 1)) =
              \<lparr>static_shape = [None, None], shape = [1, 65536], elems = xs\<rparr>"
    and f: "factor (overflow_splitter 1) = 32768"
    by (simp_all add: overflow_splitter_def overflow_parent_def xs_def)
  have a: "tf_expand_dims \<lparr>static_shape = [None, None], shape = [1, 65536], elems = xs\<rparr> 2 = Inr e"
    by (simp add: tf_expand_dims_def e_def)
  have "tf_stack (replicate 32768 e) 2 =
          Inr \<lparr>static_shape = [None, None, Some 32768, Some 1], shape = [1, 65536, 32768, 1],
               elems = concat (map (\<lambda>i. replicate 32768 (elems e ! i)) [0..<1 * 65536])\<rparr>"
    by (rule stack_of_copies) (simp_all add: e_def xs_def)
  then have b: "tf_stack (replicate 32768 e) 2 = Inr dm"
    by (simp only: dm_def)
  have c: "fst (split_by_factor example_add_op dm 32768 h) = Inl InvalidArgumentError" for h
    by (rule split_by_factor_negative_length
          [where B = 1 and T = 65536 and rest = "[32768, 1]" and D = 32768])
      (simp_all add: wrap_of_overflow dm_def)
  have d: "split_by_factor example_add_op dm 32768 h =
             (Inl InvalidArgumentError, snd (split_by_factor example_add_op dm 32768 h))" for h
    using c [of h] by (simp add: prod_eq_iff)
  have "temporal_mask example_add_op (overflow_splitter 1) [] =
          (Inl InvalidArgumentError,
           snd (split_by_factor example_add_op dm 32768
                  (example_add_op ''tf.stack'' (example_add_op ''tf.expand_dims'' []))))"
    unfolding temporal_mask_def pm f
    by (subst a, simp only: tf_op_returns prod.case sum.case nat_numeral b, subst d, simp)
  then have r: "fst (temporal_mask example_add_op (overflow_splitter 1) []) = Inl InvalidArgumentError"
    by simp
  have w: "wf_tensor \<lparr>static_shape = [None, None], shape = [1, 65536], elems = xs\<rparr>"
    by (simp add: wf_tensor_def xs_def)
  have pp: "parent (overflow_splitter 1) = overflow_parent 1"
    by (simp add: overflow_splitter_def)
  have "wf_tensor (parent_temporal_mask (overflow_parent 1))"
    and "shape (parent_temporal_mask (overflow_parent 1)) = [1, 65536]"
    using w pm by (simp_all only: pp tensor.simps)
  moreover have "0 < factor (overflow_splitter 1)"
    by (simp add: overflow_splitter_def)
  ultimately show ?thesis
    using r by (intro conjI)
qed

text \<open>
  C4, amended. Let the parent's mask be well formed with shape \<open>[B, T]\<close>, the factor
  positive, and \<open>B\<close> and \<open>T * factor\<close> below \<open>2^31\<close>. For every batch index \<open>b\<close>,
  timestep \<open>t\<close> and \<open>k < factor\<close>, the split mask at \<open>(b, t * factor + k)\<close> is the
  parent's mask at \<open>(b, t)\<close>: the \<open>factor\<close> positions from \<open>t * factor\<close> on repeat the
  value of timestep \<open>t\<close>. The split of the states follows the same order: position
  \<open>t * factor + k\<close> holds the \<open>k\<close>-th slice of the features of timestep \<open>t\<close>.
\<close>

theorem mask_replicated:
  assumes "wf_tensor (parent_temporal_mask (parent s))"
    and "shape (parent_temporal_mask (parent s)) = [B, T]"
    and "0 < factor s"
    and "b < B" and "t < T" and "k < nat (factor s)"
    and "int B < 2147483648" and "int T * factor s < 2147483648"
  shows "(\<exists>m. fst (temporal_mask add_op s g) = Inr m \<and> shape m = [B, T * nat (factor s)] \<and>
              at2 m b (t * nat (factor s) + k) = at2 (parent_temporal_mask (parent s)) b t) \<and>
         (wf_tensor (parent_temporal_states (parent s)) \<and>
          shape (parent_temporal_states (parent s)) = [B, T, F] \<and>
          static_shape (parent_temporal_states (parent s)) ! 2 = Some F \<and>
          int F < 2147483648 \<and>
          py_mod (int F) (factor s) = Inr 0 \<longrightarrow>
            (\<exists>st. fst (split_by_factor add_op (parent_temporal_states (parent s)) (factor s) g) = Inr st \<and>
                  (\<forall>d < F div nat (factor s).
                     at3 st b (t * nat (factor s) + k) d =
                     at3 (parent_temporal_states (parent s)) b t (k * (F div nat (factor s)) + d))))"
proof (intro conjI impI; (elim conjE)?)
  define n where "n = nat (factor s)"
  let ?m = "\<lparr>static_shape = [None, None], shape = [B, T * n],
             elems = concat (map (\<lambda>i. replicate n (elems (parent_temporal_mask (parent s)) ! i))
                                    [0..<B * T])\<rparr>"
  have "1 \<le> int T"
    using assms(5) by simp
  then have "1 * factor s \<le> int T * factor s"
    using assms(3) by (intro mult_right_mono) simp_all
  then have fb: "factor s < 2147483648"
    using assms(8) by simp
  have "temporal_mask add_op s g = (Inr ?m, fold add_op mask_ops g)"
    unfolding n_def using assms(1,2,3,7,8) fb
    by (intro temporal_mask_result) (simp_all add: wf_tensor_rank wf_tensor_count)
  then have tm: "fst (temporal_mask add_op s g) = Inr ?m"
    by simp
  have i: "b * T + t < B * T"
    using assms(4,5) by (rule block_index_bound)
  have kn: "k < n"
    using assms(6) by (simp add: n_def)
  have ix: "b * (T * n) + (t * n + k) = (b * T + t) * n + k"
    by (simp add: algebra_simps)
  have "elems ?m ! ((b * T + t) * n + k) = elems (parent_temporal_mask (parent s)) ! (b * T + t)"
    using nth_concat_blocks [OF i kn, of "\<lambda>i. elems (parent_temporal_mask (parent s)) ! i"]
    by simp
  then have "at2 ?m b (t * n + k) = elems (parent_temporal_mask (parent s)) ! (b * T + t)"
    unfolding at2_def by (simp only: ix tensor.simps nth_Cons_0 nth_Cons_Suc One_nat_def)
  then have "at2 ?m b (t * n + k) = at2 (parent_temporal_mask (parent s)) b t"
    using assms(2) by (simp add: at2_def)
  with tm show "\<exists>m. fst (temporal_mask add_op s g) = Inr m \<and> shape m = [B, T * nat (factor s)] \<and>
              at2 m b (t * nat (factor s) + k) = at2 (parent_temporal_mask (parent s)) b t"
    by (intro exI [of _ ?m]) (simp add: n_def)
next
  assume wf: "wf_tensor (parent_temporal_states (parent s))"
    and sh: "shape (parent_temporal_states (parent s)) = [B, T, F]"
    and st: "static_shape (parent_temporal_states (parent s)) ! 2 = Some F"
    and fb: "int F < 2147483648"
    and pm: "py_mod (int F) (factor s) = Inr 0"
  define n where "n = nat (factor s)"
  define q where "q = F div n"
  have md: "int F mod factor s = 0"
    using assms(3) pm by (simp add: py_mod_def)
  have nq: "n * q = F"
    unfolding n_def q_def using assms(3) md by (rule nat_factor_times_quotient)
  let ?st = "\<lparr>static_shape = [None, None, Some q],
              shape = [B, T * n, q], elems = elems (parent_temporal_states (parent s))\<rparr>"
  have "split_by_factor add_op (parent_temporal_states (parent s)) (factor s) g =
          (Inr ?st, fold add_op split_ops g)"
    unfolding n_def q_def using wf sh st assms(3) md assms(7) fb assms(8) by (rule split_states_result)
  then have sp: "fst (split_by_factor add_op (parent_temporal_states (parent s)) (factor s) g) = Inr ?st"
    by simp
  have ix: "(b * (T * n) + (t * n + k)) * q + d = (b * T + t) * (n * q) + (k * q + d)" for d
    by (simp add: algebra_simps)
  have "at3 ?st b (t * n + k) d = at3 (parent_temporal_states (parent s)) b t (k * q + d)" for d
    using sh by (simp add: at3_def ix nq del: mult_Suc_right)
  with sp show "\<exists>st. fst (split_by_factor add_op (parent_temporal_states (parent s)) (factor s) g) = Inr st \<and>
                  (\<forall>d < F div nat (factor s).
                     at3 st b (t * nat (factor s) + k) d =
                     at3 (parent_temporal_states (parent s)) b t (k * (F div nat (factor s)) + d))"
    by (intro exI [of _ ?st]) (simp add: n_def q_def)
qed

theorem mask_replicated_witness:
  "wf_tensor (parent_temporal_mask (example_parent 4)) \<and>
   fst (temporal_mask example_add_op (example_splitter None) []) = Inr example_split_mask \<and>
   at2 example_split_mask 1 (0 * 2 + 1) = at2 (parent_temporal_mask (example_parent 4)) 1 0 \<and>
   at2 (parent_temporal_mask (example_parent 4)) 1 0 = 1 \<and>
   py_mod 4 2 = Inr 0 \<and>
   fst (split_by_factor example_add_op (parent_temporal_states (example_parent 4)) 2 [])
     = Inr example_split_states \<and>
   at3 example_split_states 1 (0 * 2 + 1) 1 =
     at3 (parent_temporal_states (example_parent 4)) 1 0 (1 * (4 div 2) + 1)"
proof -
  let ?s = "example_splitter None"
  have p: "parent ?s = example_parent 4" and f: "factor ?s = 2"
    by (simp_all add: example_splitter_def)
  have n: "nat (factor ?s) = 2"
    by (simp add: f)
  have h1: "wf_tensor (parent_temporal_mask (parent ?s))"
    and h2: "shape (parent_temporal_mask (parent ?s)) = [2, 3]"
    and g1: "wf_tensor (parent_temporal_states (parent ?s))"
    and g2: "shape (parent_temporal_states (parent ?s)) = [2, 3, 4]"
    and g3: "static_shape (parent_temporal_states (parent ?s)) ! 2 = Some 4"
    by (simp_all only: p example_states_facts example_mask_facts)
  have h3: "0 < factor ?s" and h4: "(1::nat) < 2" and h5: "(0::nat) < 3" and h6: "1 < nat (factor ?s)"
    and h7: "int 2 < 2147483648" and h8: "int 3 * factor ?s < 2147483648"
    by (simp_all add: f)
  have g4: "py_mod (int 4) (factor ?s) = Inr 0"
    by (simp add: f py_mod_def)
  have g5: "int 4 < 2147483648"
    by simp
  note th = mask_replicated [OF h1 h2 h3 h4 h5 h6 h7 h8, where F = 4 and add_op = example_add_op
      and g = "[]"]
  have em: "fst (temporal_mask example_add_op ?s []) = Inr example_split_mask"
    using example_mask [OF p f, of example_add_op "[]"] by simp
  have es: "fst (split_by_factor example_add_op (parent_temporal_states (example_parent 4)) 2 [])
      = Inr example_split_states"
    by (simp add: example_split)
  from th [THEN conjunct1] obtain m where "fst (temporal_mask example_add_op ?s []) = Inr m"
    and "at2 m 1 (0 * nat (factor ?s) + 1) = at2 (parent_temporal_mask (parent ?s)) 1 0"
    by blast
  then have m: "at2 example_split_mask 1 (0 * 2 + 1) = at2 (parent_temporal_mask (example_parent 4)) 1 0"
    by (simp only: em sum.inject n p)
  have gg: "wf_tensor (parent_temporal_states (parent ?s)) \<and>
          shape (parent_temporal_states (parent ?s)) = [2, 3, 4] \<and>
          static_shape (parent_temporal_states (parent ?s)) ! 2 = Some 4 \<and>
          int 4 < 2147483648 \<and>
          py_mod (int 4) (factor ?s) = Inr 0"
    using g1 g2 g3 g4 g5 by (intro conjI)
  from th [THEN conjunct2, rule_format, OF gg]
  obtain st where "fst (split_by_factor example_add_op (parent_temporal_states (parent ?s)) (factor ?s) [])
        = Inr st"
    and "\<forall>d < 4 div nat (factor ?s). at3 st 1 (0 * nat (factor ?s) + 1) d =
          at3 (parent_temporal_states (parent ?s)) 1 0 (1 * (4 div nat (factor ?s)) + d)"
    by blast
  then have a: "\<forall>d < 4 div 2. at3 example_split_states 1 (0 * 2 + 1) d =
          at3 (parent_temporal_states (example_parent 4)) 1 0 (1 * (4 div 2) + d)"
    by (simp only: n [unfolded f] p f es sum.inject)
  have "(1::nat) < 4 div 2"
    by simp
  with a have s: "at3 example_split_states 1 (0 * 2 + 1) 1 =
          at3 (parent_temporal_states (example_parent 4)) 1 0 (1 * (4 div 2) + 1)"
    by blast
  have v: "at2 (parent_temporal_mask (example_parent 4)) 1 0 = 1"
    by (simp add: at2_def example_parent_def)
  have q: "py_mod 4 2 = Inr 0"
    by (simp add: py_mod_def)
  show ?thesis
    using m s v q em es example_mask_facts(1) [of 4]
    by (intro conjI)
qed

section \<open>The projection\<close>

text \<open>
  C5. Whenever \<open>temporal_states\<close> returns a tensor, it is \<open>split_by_factor\<close> of the
  parent's own states: the same tensor as with no projection configured, and the same
  for every projection size and activation for which it returns.
\<close>

theorem projection_is_dead:
  assumes "fst (temporal_states add_op dense s g) = Inr v"
  shows "fst (split_by_factor add_op2 (parent_temporal_states (parent s)) (factor s) g2) = Inr v \<and>
         fst (temporal_states add_op2 dense2 (s\<lparr>projection_size := None, activation := act2\<rparr>) g2) = Inr v \<and>
         (\<forall>ps3 act3 w.
             fst (temporal_states add_op3 dense3 (s\<lparr>projection_size := ps3, activation := act3\<rparr>) g3) = Inr w
             \<longrightarrow> w = v)"
proof (intro conjI allI impI)
  show r: "fst (split_by_factor add_op2 (parent_temporal_states (parent s)) (factor s) g2) = Inr v"
    using assms by (rule temporal_states_returns)
  show "fst (temporal_states add_op2 dense2 (s\<lparr>projection_size := None, activation := act2\<rparr>) g2) = Inr v"
    using r by (simp add: temporal_states_unprojected py_truthy_def)
  fix ps3 act3 w
  assume "fst (temporal_states add_op3 dense3 (s\<lparr>projection_size := ps3, activation := act3\<rparr>) g3) = Inr w"
  then have "fst (split_by_factor add_op2 (parent_temporal_states (parent s)) (factor s) g2) = Inr w"
    using temporal_states_returns
      [of add_op3 dense3 "s\<lparr>projection_size := ps3, activation := act3\<rparr>" g3 w add_op2 g2]
    by simp
  with r show "w = v" by simp
qed

theorem projection_is_dead_witness:
  "fst (temporal_states example_add_op example_dense (example_splitter (Some 8)) [])
     = Inr example_split_states \<and>
   snd (temporal_states example_add_op example_dense (example_splitter (Some 8)) [])
     = [''dense/kernel''] @ split_ops \<and>
   fst (split_by_factor example_add_op (parent_temporal_states (parent (example_splitter (Some 8))))
     (factor (example_splitter (Some 8))) []) = Inr example_split_states \<and>
   fst (temporal_states example_add_op example_dense (example_splitter None) [])
     = Inr example_split_states \<and>
   snd (temporal_states example_add_op example_dense (example_splitter None) []) = split_ops"
proof -
  have h: "fst (temporal_states example_add_op example_dense (example_splitter (Some 8)) [])
      = Inr example_split_states"
    by (simp add: example_states)
  have e: "(example_splitter (Some 8))\<lparr>projection_size := None, activation := PyNone\<rparr> = example_splitter None"
    by (simp add: example_splitter_def)
  from projection_is_dead [OF h, where ?add_op2.0 = example_add_op and ?g2.0 = "[]"
      and ?dense2.0 = example_dense and ?act2.0 = PyNone and ?add_op3.0 = example_add_op
      and ?dense3.0 = example_dense and ?g3.0 = "[]"] h show ?thesis
    by (simp add: e example_states fold_example_add_op)
qed

section \<open>The element count\<close>

text \<open>
  C9. For positive \<open>T\<close>, \<open>F\<close> and \<open>factor\<close> with \<open>F % factor == 0\<close>, the floor division
  of \<open>split_by_factor\<close> is exact: \<open>T * F = (T * factor) * (F // factor)\<close>. When moreover
  \<open>B\<close>, \<open>F\<close> and \<open>T * factor\<close> are below \<open>2^31\<close>, the split of a well-formed tensor of
  shape \<open>[B, T, F]\<close> returns the same elements under the shape
  \<open>[B, T * factor, F // factor]\<close>, which holds as many.
\<close>

theorem split_preserves_element_count:
  assumes "0 < T" "0 < F" "0 < f" "py_mod F f = Inr 0"
  shows "py_floordiv F f = Inr (F div f) \<and> T * F = (T * f) * (F div f) \<and>
         (wf_tensor t \<and> shape t = [B, nat T, nat F] \<and> static_shape t ! 2 = Some (nat F) \<and>
          int B < 2147483648 \<and> F < 2147483648 \<and> T * f < 2147483648 \<longrightarrow>
          (\<exists>r. fst (split_by_factor add_op t f g) = Inr r \<and>
               shape r = [B, nat (T * f), nat (F div f)] \<and>
               elems r = elems t \<and> prod_list (shape r) = prod_list (shape t)))"
proof (intro conjI impI; (elim conjE)?)
  have fz: "f \<noteq> 0" and m: "F mod f = 0"
    using assms(4) by (auto simp: py_mod_def split: if_splits)
  have q: "f * (F div f) = F"
    using m by (simp add: mod_0_imp_dvd)
  show "py_floordiv F f = Inr (F div f)"
    using fz by (simp add: py_floordiv_def)
  have "T * f * (F div f) = T * (f * (F div f))"
    by (simp only: mult.assoc)
  then show "T * F = (T * f) * (F div f)"
    by (simp only: q)
  assume wf: "wf_tensor t" and sh: "shape t = [B, nat T, nat F]"
    and st: "static_shape t ! 2 = Some (nat F)"
    and bb: "int B < 2147483648" and bf: "F < 2147483648" and bt: "T * f < 2147483648"
  have md: "int (nat F) mod f = 0"
    using assms(2) m by simp
  have bf': "int (nat F) < 2147483648"
    using assms(2) bf by simp
  have bt': "int (nat T) * f < 2147483648"
    using assms(1) bt by simp
  have r: "split_by_factor add_op t f g =
         (Inr \<lparr>static_shape = [None, None, Some (nat F div nat f)],
               shape = [B, nat T * nat f, nat F div nat f], elems = elems t\<rparr>,
          fold add_op split_ops g)"
    using wf sh st assms(3) md bb bf' bt' by (rule split_states_result)
  have e1: "nat (T * f) = nat T * nat f"
    using assms(1,3) by (simp add: nat_mult_distrib)
  have e2: "nat (F div f) = nat F div nat f"
    using assms(2,3) by (simp add: nat_div_distrib)
  have nq: "nat f * (nat F div nat f) = nat F"
    using assms(3) md by (rule nat_factor_times_quotient)
  have "nat T * nat f * (nat F div nat f) = nat T * (nat f * (nat F div nat f))"
    by (simp only: mult.assoc)
  then have e3: "nat T * nat f * (nat F div nat f) = nat T * nat F"
    by (simp only: nq)
  show "\<exists>r. fst (split_by_factor add_op t f g) = Inr r \<and>
              shape r = [B, nat (T * f), nat (F div f)] \<and>
              elems r = elems t \<and> prod_list (shape r) = prod_list (shape t)"
    unfolding r e1 e2 using sh e3 by simp
qed

theorem split_preserves_element_count_witness:
  "py_mod 4 2 = Inr 0 \<and> py_floordiv 4 2 = Inr 2 \<and> (3::int) * 4 = (3 * 2) * 2 \<and>
   (\<exists>r. fst (split_by_factor example_add_op (parent_temporal_states (example_parent 4)) 2 []) = Inr r \<and>
        shape r = [2, 6, 2] \<and> elems r = [0..<24] \<and> prod_list (shape r) = 24)"
proof -
  have h4: "py_mod 4 2 = Inr 0"
    by (simp add: py_mod_def)
  have h: "wf_tensor (parent_temporal_states (example_parent 4)) \<and>
      shape (parent_temporal_states (example_parent 4)) = [2, nat 3, nat 4] \<and>
      static_shape (parent_temporal_states (example_parent 4)) ! 2 = Some (nat 4) \<and>
      int 2 < 2147483648 \<and> (4::int) < 2147483648 \<and> (3::int) * 2 < 2147483648"
    by (simp add: example_states_facts)
  have th: "py_floordiv 4 2 = Inr (4 div 2) \<and> (3::int) * 4 = (3 * 2) * (4 div 2) \<and>
         (wf_tensor (parent_temporal_states (example_parent 4)) \<and>
          shape (parent_temporal_states (example_parent 4)) = [2, nat 3, nat 4] \<and>
          static_shape (parent_temporal_states (example_parent 4)) ! 2 = Some (nat 4) \<and>
          int 2 < 2147483648 \<and> (4::int) < 2147483648 \<and> (3::int) * 2 < 2147483648 \<longrightarrow>
          (\<exists>r. fst (split_by_factor example_add_op (parent_temporal_states (example_parent 4)) 2 []) = Inr r \<and>
              shape r = [2, nat (3 * 2), nat (4 div 2)] \<and>
              elems r = elems (parent_temporal_states (example_parent 4)) \<and>
              prod_list (shape r) = prod_list (shape (parent_temporal_states (example_parent 4)))))"
    by (rule split_preserves_element_count [OF _ _ _ h4]) simp_all
  from th h have "\<exists>r. fst (split_by_factor example_add_op (parent_temporal_states (example_parent 4)) 2 []) = Inr r \<and>
              shape r = [2, nat (3 * 2), nat (4 div 2)] \<and>
              elems r = elems (parent_temporal_states (example_parent 4)) \<and>
              prod_list (shape r) = prod_list (shape (parent_temporal_states (example_parent 4)))"
    by blast
  then have "\<exists>r. fst (split_by_factor example_add_op (parent_temporal_states (example_parent 4)) 2 []) = Inr r \<and>
        shape r = [2, 6, 2] \<and> elems r = [0..<24] \<and> prod_list (shape r) = 24"
    by (simp add: example_parent_def)
  with th h4 show ?thesis
    by simp
qed

section \<open>Caching\<close>

text \<open>
  C10. On an instance whose cache is empty, a first read of \<open>temporal_states\<close> that
  returns a tensor has run the body once, adding its nodes to the graph. Every later
  read returns that same tensor and leaves the instance and the graph as they are,
  whatever the tensor library and the dense layer would add: the body is not run again.
  The same holds for \<open>temporal_mask\<close>.
\<close>

theorem cached_on_first_access:
  "(temporal_states_cached s = None \<and> get_temporal_states add_op dense s g = (Inr v, s1, g1) \<longrightarrow>
      temporal_states add_op dense s g = (Inr v, g1) \<and>
      get_temporal_states add_op2 dense2 s1 g2 = (Inr v, s1, g2)) \<and>
   (temporal_mask_cached s = None \<and> get_temporal_mask add_op s g3 = (Inr m, s2, g4) \<longrightarrow>
      temporal_mask add_op s g3 = (Inr m, g4) \<and>
      get_temporal_mask add_op2 s2 g5 = (Inr m, s2, g5))"
proof (intro conjI impI; elim conjE)
  assume c: "temporal_states_cached s = None"
    and a: "get_temporal_states add_op dense s g = (Inr v, s1, g1)"
  obtain r c' g' where d: "tensor_decorator (temporal_states add_op dense s) None g = (r, c', g')"
    by (cases "tensor_decorator (temporal_states add_op dense s) None g") auto
  with a c have e: "r = Inr v" "s1 = s\<lparr>temporal_states_cached := c'\<rparr>" "g' = g1"
    by (simp_all add: get_temporal_states_def)
  from d e tensor_decorator_first [of "temporal_states add_op dense s" g v c' g1]
  have b: "temporal_states add_op dense s g = (Inr v, g1)" and c': "c' = Some v"
    by simp_all
  show "temporal_states add_op dense s g = (Inr v, g1)" by (rule b)
  show "get_temporal_states add_op2 dense2 s1 g2 = (Inr v, s1, g2)"
    using e c' by (simp add: get_temporal_states_def tensor_decorator_cached)
next
  assume c: "temporal_mask_cached s = None"
    and a: "get_temporal_mask add_op s g3 = (Inr m, s2, g4)"
  obtain r c' g' where d: "tensor_decorator (temporal_mask add_op s) None g3 = (r, c', g')"
    by (cases "tensor_decorator (temporal_mask add_op s) None g3") auto
  with a c have e: "r = Inr m" "s2 = s\<lparr>temporal_mask_cached := c'\<rparr>" "g' = g4"
    by (simp_all add: get_temporal_mask_def)
  from d e tensor_decorator_first [of "temporal_mask add_op s" g3 m c' g4]
  have b: "temporal_mask add_op s g3 = (Inr m, g4)" and c': "c' = Some m"
    by simp_all
  show "temporal_mask add_op s g3 = (Inr m, g4)" by (rule b)
  show "get_temporal_mask add_op2 s2 g5 = (Inr m, s2, g5)"
    using e c' by (simp add: get_temporal_mask_def tensor_decorator_cached)
qed

theorem cached_on_first_access_witness:
  "temporal_states_cached (example_splitter (Some 8)) = None \<and>
   get_temporal_states example_add_op example_dense (example_splitter (Some 8)) [] =
     (Inr example_split_states,
      (example_splitter (Some 8))\<lparr>temporal_states_cached := Some example_split_states\<rparr>,
      [''dense/kernel''] @ split_ops) \<and>
   get_temporal_states example_add_op example_dense
      ((example_splitter (Some 8))\<lparr>temporal_states_cached := Some example_split_states\<rparr>)
      ([''dense/kernel''] @ split_ops) =
     (Inr example_split_states,
      (example_splitter (Some 8))\<lparr>temporal_states_cached := Some example_split_states\<rparr>,
      [''dense/kernel''] @ split_ops) \<and>
   temporal_mask_cached (example_splitter (Some 8)) = None \<and>
   get_temporal_mask example_add_op (example_splitter (Some 8)) [] =
     (Inr example_split_mask,
      (example_splitter (Some 8))\<lparr>temporal_mask_cached := Some example_split_mask\<rparr>, mask_ops) \<and>
   get_temporal_mask example_add_op
      ((example_splitter (Some 8))\<lparr>temporal_mask_cached := Some example_split_mask\<rparr>) mask_ops =
     (Inr example_split_mask,
      (example_splitter (Some 8))\<lparr>temporal_mask_cached := Some example_split_mask\<rparr>, mask_ops) \<and>
   snd (temporal_mask example_add_op
      ((example_splitter (Some 8))\<lparr>temporal_mask_cached := Some example_split_mask\<rparr>) mask_ops) =
     mask_ops @ mask_ops"
proof -
  let ?s = "example_splitter (Some 8)"
  let ?s1 = "?s\<lparr>temporal_states_cached := Some example_split_states\<rparr>"
  let ?s2 = "?s\<lparr>temporal_mask_cached := Some example_split_mask\<rparr>"
  have c: "temporal_states_cached ?s = None" "temporal_mask_cached ?s = None"
    by (simp_all add: example_splitter_def)
  have a: "get_temporal_states example_add_op example_dense ?s [] =
      (Inr example_split_states, ?s1, [''dense/kernel''] @ split_ops)"
    by (simp add: get_temporal_states_def tensor_decorator_def c example_states fold_example_add_op)
  have em: "temporal_mask example_add_op ?s h = (Inr example_split_mask, h @ mask_ops)" for h
    using example_mask [of ?s example_add_op h]
    by (simp add: example_splitter_def fold_example_add_op)
  have em2: "temporal_mask example_add_op ?s2 h = (Inr example_split_mask, h @ mask_ops)" for h
    using example_mask [of ?s2 example_add_op h]
    by (simp add: example_splitter_def fold_example_add_op)
  have b: "get_temporal_mask example_add_op ?s [] = (Inr example_split_mask, ?s2, mask_ops)"
    by (simp add: get_temporal_mask_def tensor_decorator_def c em)
  note th = cached_on_first_access [where s = ?s and add_op = example_add_op
      and dense = example_dense and g = "[]"
      and v = example_split_states and ?s1.0 = ?s1 and ?g1.0 = "[''dense/kernel''] @ split_ops"
      and ?add_op2.0 = example_add_op
      and ?dense2.0 = example_dense and ?g2.0 = "[''dense/kernel''] @ split_ops"
      and ?g3.0 = "[]" and m = example_split_mask and ?s2.0 = ?s2 and ?g4.0 = mask_ops
      and ?g5.0 = mask_ops]
  from th c a have "get_temporal_states example_add_op example_dense ?s1 ([''dense/kernel''] @ split_ops) =
      (Inr example_split_states, ?s1, [''dense/kernel''] @ split_ops)"
    by blast
  moreover from th c b have "get_temporal_mask example_add_op ?s2 mask_ops =
      (Inr example_split_mask, ?s2, mask_ops)"
    by blast
  moreover have "?s2 = (example_splitter (Some 8))\<lparr>temporal_mask_cached := Some example_split_mask\<rparr>"
    by simp
  moreover have "snd (temporal_mask example_add_op ?s2 mask_ops) = mask_ops @ mask_ops"
    by (simp add: em2)
  ultimately show ?thesis
    using c a b by (intro conjI)
qed

section \<open>Dependencies and feeds\<close>

text \<open>
  C7. \<open>get_dependencies\<close> returns the splitter itself together with all that the
  parent's \<open>get_dependencies\<close> returns, and nothing else.
\<close>

theorem get_dependencies_self_and_parent:
  "get_dependencies s = {self_ref s} \<union> parent_get_dependencies (parent s)"
  by (simp add: get_dependencies_def)

text \<open>C8. \<open>feed_dict\<close> returns the empty mapping for every dataset and both train flags.\<close>

theorem feed_dict_empty:
  "feed_dict s dataset train = Map.empty \<and> dom (feed_dict s dataset train) = {}"
  by (simp add: feed_dict_def)

end
